theory Spec2Isabelle
  imports Main
begin

section \<open>Python values of the operator\<close>

text \<open>
  The operator \<^verbatim>\<open>OptimizeQAMapper\<close> (\<^verbatim>\<open>data_juicer/ops/mapper/optimize_qa_mapper.py\<close>)
  works on Python \<^verbatim>\<open>str\<close> values. A Python string is a sequence of Unicode code points,
  and the prompts and markers of the operator are Chinese text, so a string is modelled
  as the list of its code points; \<open>length\<close> then counts what Python's \<^verbatim>\<open>len\<close> counts.
  \<open>ustr\<close> reads an ASCII literal as such a string.
\<close>

type_synonym ustring = "nat list"

definition ustr :: "string \<Rightarrow> ustring" where
  "ustr s = map of_char s"

text \<open>
  Exceptions are values. \<open>ReError\<close> is \<^verbatim>\<open>re.error\<close>, \<open>External\<close> an exception raised
  inside a collaborator (the model call). \<open>NotModelled\<close> is not a Python exception: the
  models of \<^verbatim>\<open>str.format\<close> and of the \<^verbatim>\<open>re\<close> module below cover a fragment of the
  template and pattern syntax, and answer \<open>NotModelled\<close> outside it.
\<close>

datatype exn =
    AssertionError
  | AttributeError
  | IndexError
  | KeyError
  | TypeError
  | ValueError
  | ReError
  | External nat
  | NotModelled

section \<open>\<^verbatim>\<open>str.strip\<close> and \<^verbatim>\<open>str.format\<close>\<close>

text \<open>
  Whitespace in the sense of \<^verbatim>\<open>str.isspace\<close>, used both by \<^verbatim>\<open>str.strip()\<close> and by the
  pattern escape \<^verbatim>\<open>\s\<close> on \<^verbatim>\<open>str\<close> patterns: U+0009..U+000D, U+001C..U+0020, U+0085,
  U+00A0, U+1680, U+2000..U+200A, U+2028, U+2029, U+202F, U+205F, U+3000.
\<close>

definition is_space :: "nat \<Rightarrow> bool" where
  "is_space c \<longleftrightarrow>
     (9 \<le> c \<and> c \<le> 13) \<or> (28 \<le> c \<and> c \<le> 32) \<or> c = 133 \<or> c = 160 \<or> c = 5760 \<or>
     (8192 \<le> c \<and> c \<le> 8202) \<or> c = 8232 \<or> c = 8233 \<or> c = 8239 \<or> c = 8287 \<or> c = 12288"

definition strip :: "ustring \<Rightarrow> ustring" where
  "strip s = rev (dropWhile is_space (rev (dropWhile is_space s)))"

text \<open>
  \<^verbatim>\<open>template.format(*args)\<close> with positional arguments that are strings. Modelled:
  literal text, the escapes \<^verbatim>\<open>{{\<close> and \<^verbatim>\<open>}}\<close>, and the automatically numbered field
  \<^verbatim>\<open>{}\<close>, which takes the next argument (IndexError when there is none; arguments left
  over are ignored). A lone brace is a ValueError. A field with a name, an index, a
  conversion or a format specification is outside the fragment.
\<close>

fun str_format :: "ustring \<Rightarrow> ustring list \<Rightarrow> exn + ustring" where
  "str_format [] args = Inr []"
| "str_format (c # cs) args =
     (if c = 123 then
        (case cs of
           [] \<Rightarrow> Inl ValueError
         | d # ds \<Rightarrow>
             if d = 123 then map_sum id ((#) 123) (str_format ds args)
             else if d = 125 then
               (case args of
                  [] \<Rightarrow> Inl IndexError
                | a # as \<Rightarrow> map_sum id ((@) a) (str_format ds as))
             else Inl NotModelled)
      else if c = 125 then
        (case cs of
           [] \<Rightarrow> Inl ValueError
         | d # ds \<Rightarrow>
             if d = 125 then map_sum id ((#) 125) (str_format ds args)
             else Inl ValueError)
      else map_sum id ((#) c) (str_format cs args))"

section \<open>The \<^verbatim>\<open>re\<close> module: \<^verbatim>\<open>re.findall\<close>\<close>

text \<open>
  A pattern is compiled to a flat program. The fragment: a literal character, \<^verbatim>\<open>.\<close>,
  the escape \<^verbatim>\<open>\s\<close>, the escapes \<^verbatim>\<open>\n\<close>, \<^verbatim>\<open>\t\<close>, \<^verbatim>\<open>\r\<close> and an escaped
  non-alphanumeric character; each of these alone or under one of the quantifiers
  \<^verbatim>\<open>*\<close>, \<^verbatim>\<open>+\<close>, \<^verbatim>\<open>?\<close> (greedy) and \<^verbatim>\<open>*?\<close>, \<^verbatim>\<open>+?\<close>, \<^verbatim>\<open>??\<close> (lazy); and capturing
  groups \<^verbatim>\<open>( )\<close>, numbered by their opening parenthesis, not quantified. The default
  output pattern of the operator lies inside this fragment.
\<close>

datatype cls = Lit nat | AnyChar | Space

datatype rep = Once | Star | Plus | Opt

datatype instr = Item cls rep bool | Open nat | Close nat

definition is_alnum :: "nat \<Rightarrow> bool" where
  "is_alnum c \<longleftrightarrow> (48 \<le> c \<and> c \<le> 57) \<or> (65 \<le> c \<and> c \<le> 90) \<or> (97 \<le> c \<and> c \<le> 122)"

text \<open>
  \<open>read_atom c cs\<close>: the character class that starts at \<open>c\<close>, and how many characters
  of \<open>cs\<close> belong to it. \<open>c\<close> is not a parenthesis, a quantifier or one of
  \<^verbatim>\<open>{ [ | ^ $\<close>.
\<close>

definition read_atom :: "nat \<Rightarrow> ustring \<Rightarrow> exn + (cls \<times> nat)" where
  "read_atom c cs =
     (if c = 46 then Inr (AnyChar, 0)
      else if c = 92 then
        (case cs of
           [] \<Rightarrow> Inl ReError
         | e # _ \<Rightarrow>
             if e = 115 then Inr (Space, 1)
             else if e = 110 then Inr (Lit 10, 1)
             else if e = 116 then Inr (Lit 9, 1)
             else if e = 114 then Inr (Lit 13, 1)
             else if is_alnum e then Inl NotModelled
             else Inr (Lit e, 1))
      else Inr (Lit c, 0))"

text \<open>
  \<open>read_quant cs\<close>: the quantifier at the head of \<open>cs\<close>, whether it is greedy, and
  its length in characters (0 when there is none).
\<close>

definition read_quant :: "ustring \<Rightarrow> rep \<times> bool \<times> nat" where
  "read_quant cs =
     (case cs of
        [] \<Rightarrow> (Once, True, 0)
      | q # r \<Rightarrow>
          (let lazy = (case r of [] \<Rightarrow> False | x # _ \<Rightarrow> x = 63) in
           if q = 42 then (Star, \<not> lazy, if lazy then 2 else 1)
           else if q = 43 then (Plus, \<not> lazy, if lazy then 2 else 1)
           else if q = 63 then (Opt, \<not> lazy, if lazy then 2 else 1)
           else (Once, True, 0)))"

definition emit :: "instr \<Rightarrow> exn + (instr list \<times> nat) \<Rightarrow> exn + (instr list \<times> nat)" where
  "emit i r = (case r of Inl e \<Rightarrow> Inl e | Inr (prog, n) \<Rightarrow> Inr (i # prog, n))"

definition peek :: "ustring \<Rightarrow> nat option" where
  "peek cs = (case cs of [] \<Rightarrow> None | x # _ \<Rightarrow> Some x)"

text \<open>
  \<open>compile p n stk\<close> compiles the rest \<open>p\<close> of a pattern; \<open>n\<close> is the number of the
  next group and \<open>stk\<close> the groups that are open. The result is the program and the
  number of groups. A quantifier with nothing to repeat, a second quantifier \<^verbatim>\<open>*\<close> or
  \<^verbatim>\<open>?\<close>, an unbalanced parenthesis and a backslash at the end are \<^verbatim>\<open>re.error\<close>. The
  group extensions \<^verbatim>\<open>(?...)\<close>, a quantified group, the possessive quantifiers and the
  characters \<^verbatim>\<open>{ [ | ^ $\<close> are outside the fragment.
\<close>

function compile :: "ustring \<Rightarrow> nat \<Rightarrow> nat list \<Rightarrow> exn + (instr list \<times> nat)" where
  "compile [] n stk = (if stk = [] then Inr ([], n - 1) else Inl ReError)"
| "compile (c # cs) n stk =
     (if c = 40 then
        (if peek cs = Some 63 then Inl NotModelled
         else emit (Open n) (compile cs (Suc n) (n # stk)))
      else if c = 41 then
        (case stk of
           [] \<Rightarrow> Inl ReError
         | g # stk' \<Rightarrow>
             if peek cs \<in> {Some 42, Some 43, Some 63, Some 123} then Inl NotModelled
             else emit (Close g) (compile cs n stk'))
      else if c = 42 \<or> c = 43 \<or> c = 63 then Inl ReError
      else if c = 123 \<or> c = 91 \<or> c = 124 \<or> c = 94 \<or> c = 36 then Inl NotModelled
      else
        (case read_atom c cs of
           Inl e \<Rightarrow> Inl e
         | Inr (cl, k) \<Rightarrow>
             (case read_quant (drop k cs) of
                (rp, greedy, j) \<Rightarrow>
                  if rp \<noteq> Once \<and> peek (drop (k + j) cs) \<in> {Some 42, Some 63} then Inl ReError
                  else if rp \<noteq> Once \<and> peek (drop (k + j) cs) = Some 43 then Inl NotModelled
                  else emit (Item cl rp greedy) (compile (drop (k + j) cs) n stk))))"
  by pat_completeness auto
termination
  by (relation "measure (\<lambda>(p, n, stk). length p)") auto

text \<open>
  Matching. \<open>cls_ok dotall cl c\<close>: the character \<open>c\<close> belongs to the class; with the
  flag \<^verbatim>\<open>re.DOTALL\<close> the dot matches a newline too.
\<close>

fun cls_ok :: "bool \<Rightarrow> cls \<Rightarrow> nat \<Rightarrow> bool" where
  "cls_ok dotall (Lit k) c = (c = k)"
| "cls_ok dotall AnyChar c = (dotall \<or> c \<noteq> 10)"
| "cls_ok dotall Space c = is_space c"

text \<open>
  \<open>match_here dotall prog s p mk adv st\<close> runs the program on the rest \<open>s\<close> of the
  subject, which starts at position \<open>p\<close>, by backtracking: a greedy quantifier first
  takes one more character and gives it back when the rest of the program fails, a lazy
  one first tries the rest of the program. \<open>mk\<close> are the marks (mark \<open>2 * g\<close> the
  start of group \<open>g\<close>, mark \<open>2 * g + 1\<close> its end). The result is the end of the
  match and the marks. With \<open>adv\<close> a match that ends at \<open>st\<close> is refused (the
  engine's \<^verbatim>\<open>must_advance\<close>, set after an empty match).
\<close>

fun match_here ::
  "bool \<Rightarrow> instr list \<Rightarrow> ustring \<Rightarrow> nat \<Rightarrow> (nat \<rightharpoonup> nat) \<Rightarrow> bool \<Rightarrow> nat \<Rightarrow> (nat \<times> (nat \<rightharpoonup> nat)) option"
where
  "match_here d [] s p mk adv st = (if adv \<and> p = st then None else Some (p, mk))"
| "match_here d (Open g # prog) s p mk adv st = match_here d prog s p (mk(2 * g \<mapsto> p)) adv st"
| "match_here d (Close g # prog) s p mk adv st = match_here d prog s p (mk(2 * g + 1 \<mapsto> p)) adv st"
| "match_here d (Item cl Once gr # prog) s p mk adv st =
     (case s of
        [] \<Rightarrow> None
      | c # s' \<Rightarrow> if cls_ok d cl c then match_here d prog s' (p + 1) mk adv st else None)"
| "match_here d (Item cl Plus gr # prog) s p mk adv st =
     (case s of
        [] \<Rightarrow> None
      | c # s' \<Rightarrow>
          if cls_ok d cl c then match_here d (Item cl Star gr # prog) s' (p + 1) mk adv st
          else None)"
| "match_here d (Item cl Star True # prog) s p mk adv st =
     (case s of
        [] \<Rightarrow> match_here d prog s p mk adv st
      | c # s' \<Rightarrow>
          if cls_ok d cl c then
            (case match_here d (Item cl Star True # prog) s' (p + 1) mk adv st of
               Some r \<Rightarrow> Some r
             | None \<Rightarrow> match_here d prog s p mk adv st)
          else match_here d prog s p mk adv st)"
| "match_here d (Item cl Star False # prog) s p mk adv st =
     (case match_here d prog s p mk adv st of
        Some r \<Rightarrow> Some r
      | None \<Rightarrow>
          (case s of
             [] \<Rightarrow> None
           | c # s' \<Rightarrow>
               if cls_ok d cl c then match_here d (Item cl Star False # prog) s' (p + 1) mk adv st
               else None))"
| "match_here d (Item cl Opt True # prog) s p mk adv st =
     (case s of
        [] \<Rightarrow> match_here d prog s p mk adv st
      | c # s' \<Rightarrow>
          if cls_ok d cl c then
            (case match_here d prog s' (p + 1) mk adv st of
               Some r \<Rightarrow> Some r
             | None \<Rightarrow> match_here d prog s p mk adv st)
          else match_here d prog s p mk adv st)"
| "match_here d (Item cl Opt False # prog) s p mk adv st =
     (case match_here d prog s p mk adv st of
        Some r \<Rightarrow> Some r
      | None \<Rightarrow>
          (case s of
             [] \<Rightarrow> None
           | c # s' \<Rightarrow> if cls_ok d cl c then match_here d prog s' (p + 1) mk adv st else None))"

text \<open>
  What \<^verbatim>\<open>re.findall\<close> puts into its result list for one match: the matched text when
  the pattern has no group, the text of the group when it has one, and a tuple of the
  texts of all groups when it has several. Never a match object.
\<close>

datatype findall_item = ItemStr ustring | ItemTuple "ustring list"

definition group_text :: "ustring \<Rightarrow> (nat \<rightharpoonup> nat) \<Rightarrow> nat \<Rightarrow> ustring" where
  "group_text subject mk g =
     (case (mk (2 * g), mk (2 * g + 1)) of
        (Some b, Some e) \<Rightarrow> take (e - b) (drop b subject)
      | _ \<Rightarrow> [])"

fun group_texts :: "ustring \<Rightarrow> (nat \<rightharpoonup> nat) \<Rightarrow> nat \<Rightarrow> ustring list" where
  "group_texts subject mk 0 = []"
| "group_texts subject mk (Suc g) = group_texts subject mk g @ [group_text subject mk (Suc g)]"

definition make_item :: "nat \<Rightarrow> ustring \<Rightarrow> nat \<Rightarrow> nat \<Rightarrow> (nat \<rightharpoonup> nat) \<Rightarrow> findall_item" where
  "make_item ngroups subject b e mk =
     (if ngroups = 0 then ItemStr (take (e - b) (drop b subject))
      else if ngroups = 1 then ItemStr (group_text subject mk 1)
      else ItemTuple (group_texts subject mk ngroups))"

text \<open>
  The scan of \<^verbatim>\<open>findall\<close>. \<open>s\<close> is the rest of the subject at position \<open>pos\<close>, and
  \<open>nxt\<close> the position where the next search starts (the end of the previous match); a
  search tries every start position from \<open>nxt\<close> on, leftmost first. \<open>matches_at\<close>
  gives the items of the matches that start at \<open>pos\<close> and the new \<open>nxt\<close>. After a
  match that is not empty the next search starts at its end. After an empty match at
  \<open>pos\<close> the engine searches from \<open>pos\<close> again and refuses, for this start position
  only, a match that ends at \<open>pos\<close>.
\<close>

definition matches_at ::
  "bool \<Rightarrow> instr list \<Rightarrow> nat \<Rightarrow> ustring \<Rightarrow> ustring \<Rightarrow> nat \<Rightarrow> nat \<Rightarrow> findall_item list \<times> nat"
where
  "matches_at d prog ng subject s pos nxt =
     (if pos < nxt then ([], nxt)
      else
        (case match_here d prog s pos Map.empty False pos of
           None \<Rightarrow> ([], nxt)
         | Some (e, mk) \<Rightarrow>
             if pos < e then ([make_item ng subject pos e mk], e)
             else
               (case match_here d prog s pos Map.empty True pos of
                  None \<Rightarrow> ([make_item ng subject pos e mk], pos + 1)
                | Some (e', mk') \<Rightarrow>
                    ([make_item ng subject pos e mk, make_item ng subject pos e' mk'], e'))))"

text \<open>
  \<open>findall_from d prog ng subject s pos (items, nxt)\<close>: \<open>items\<close> are the items of the
  matches that start at \<open>pos\<close>; the scan goes on with the next start position while
  there is one (the last start position is the end of the subject).
\<close>

fun findall_from ::
  "bool \<Rightarrow> instr list \<Rightarrow> nat \<Rightarrow> ustring \<Rightarrow> ustring \<Rightarrow> nat \<Rightarrow> findall_item list \<times> nat \<Rightarrow> findall_item list"
where
  "findall_from d prog ng subject [] pos (items, nxt) = items"
| "findall_from d prog ng subject (c # s) pos (items, nxt) =
     items @ findall_from d prog ng subject s (pos + 1) (matches_at d prog ng subject s (pos + 1) nxt)"

text \<open>
  \<^verbatim>\<open>re.findall(pattern, string, flags)\<close>, where \<open>dotall\<close> says whether \<open>flags\<close> is
  \<^verbatim>\<open>re.DOTALL\<close> (the only flag the operator passes).
\<close>

definition re_findall :: "ustring \<Rightarrow> ustring \<Rightarrow> bool \<Rightarrow> exn + findall_item list" where
  "re_findall pattern string dotall =
     (case compile pattern 1 [] of
        Inl e \<Rightarrow> Inl e
      | Inr (prog, ngroups) \<Rightarrow> Inr (findall_from dotall prog ngroups string string 0
               (matches_at dotall prog ngroups string string 0 0)))"

section \<open>The operator's state\<close>

text \<open>
  A dictionary of keyword parameters (\<^verbatim>\<open>model_params\<close>, \<^verbatim>\<open>sampling_params\<close>) maps a
  name to a value; \<open>PyObj\<close> stands for a value of any other type (a float such as a
  sampling temperature), named by a token.
\<close>

datatype pyval = PyNone | PyInt int | PyStr ustring | PyObj nat

type_synonym dict = "ustring \<rightharpoonup> pyval"

text \<open>
  Modelled from the spec: the base class \<^verbatim>\<open>Mapper\<close> (\<^verbatim>\<open>data_juicer/ops/base_op.py\<close>) is not
  part of the sources at hand. Of the state that \<^verbatim>\<open>super().__init__(**kwargs)\<close> sets up, the
  operator uses the two configured field names of a record (the question key and the answer
  key) and the worker-process count, which may be unset.
\<close>

record mapper =
  query_key :: ustring
  response_key :: ustring
  num_proc :: "int option"

text \<open>
  Modelled from the spec: \<^verbatim>\<open>prepare_model\<close> (\<^verbatim>\<open>data_juicer/utils/model_utils.py\<close>) is not part
  of the sources at hand. It takes the model type, the model name and the initialisation
  parameters and gives the key of a model handle that is built lazily later; the key is
  modelled as the description of the call, and the world records each call.
\<close>

record prepare_call =
  model_type :: ustring
  pretrained_model_name_or_path :: ustring
  return_pipe :: "bool option"
  params :: dict

text \<open>
  \<^verbatim>\<open>self.sampling_params\<close> is the object \<^verbatim>\<open>vllm.SamplingParams(**sampling_params)\<close> on the
  batched engine and the plain dictionary on the pipeline backend.
\<close>

datatype sampling = SamplingParams dict | ParamDict dict

record optimize_qa_mapper = mapper +
  system_prompt :: ustring
  input_template :: ustring
  qa_pair_template :: ustring
  output_pattern :: ustring
  enable_vllm :: bool
  model_key :: prepare_call
  sampling_params :: sampling

text \<open>
  One turn of a conversation, \<^verbatim>\<open>{'role': ..., 'content': ...}\<close>, and a request to the model:
  \<^verbatim>\<open>model.chat(messages, sampling_params)\<close> on the batched engine,
  \<^verbatim>\<open>model(messages, return_full_text=..., **kwargs)\<close> on the pipeline backend.
\<close>

record message =
  role :: ustring
  content :: ustring

datatype request = Chat "message list" sampling | Pipe "message list" bool dict

text \<open>
  The world outside the operator: the records of the dataset, as a store from references to
  dictionaries of text fields (a record is mutated in place, so the caller sees a write); the
  number of CUDA devices (\<^verbatim>\<open>torch.cuda.device_count()\<close>); the calls of \<^verbatim>\<open>prepare_model\<close> and
  the requests sent to a model so far. The calls of the logger are not modelled.
\<close>

type_synonym ref = nat

type_synonym sample = "ustring \<rightharpoonup> ustring"

record world =
  heap :: "ref \<rightharpoonup> sample"
  cuda_device_count :: nat
  prepared :: "prepare_call list"
  requests :: "request list"

text \<open>
  The model that \<^verbatim>\<open>get_model(self.model_key, rank, self.use_cuda())\<close> resolves, as what its
  two entry points answer: \<open>chat\<close> gives for each conversation of the batch the texts of
  its completions (\<^verbatim>\<open>response[i].outputs[j].text\<close>), \<open>pipe\<close> a list of dictionaries. Either
  may raise.
\<close>

record llm =
  chat :: "message list \<Rightarrow> sampling \<Rightarrow> exn + ustring list list"
  pipe :: "message list \<Rightarrow> bool \<Rightarrow> dict \<Rightarrow> exn + (ustring \<rightharpoonup> ustring) list"

section \<open>The class constants\<close>

definition DEFAULT_SYSTEM_PROMPT :: ustring where
  "DEFAULT_SYSTEM_PROMPT =
     [35831, 20248, 21270, 36755, 20837, 30340, 38382, 31572, 23545, 65292, 20351, 12304,
      38382, 39064, 12305, 21644, 12304, 22238, 31572, 12305, 37117, 26356, 21152, 35814,
      32454, 12289, 20934, 30830, 12290, 24517, 39035, 25353, 29031, 20197, 19979, 26631,
      35760, 26684, 24335, 65292, 30452, 25509, 36755, 20986, 20248, 21270, 21518, 30340,
      38382, 31572, 23545, 65306, 10, 12304, 38382, 39064, 12305, 10, 20248, 21270, 21518,
      30340, 38382, 39064, 10, 12304, 22238, 31572, 12305, 10, 20248, 21270, 21518, 30340,
      22238, 31572]"

text \<open>
  The input template is the text U+4EE5 U+4E0B U+662F U+539F U+59CB U+95EE U+7B54 U+5BF9
  U+FF1A, a newline and \<^verbatim>\<open>{}\<close>.
\<close>

definition DEFAULT_INPUT_TEMPLATE :: ustring where
  "DEFAULT_INPUT_TEMPLATE =
     [20197, 19979, 26159, 21407, 22987, 38382, 31572, 23545, 65306, 10, 123, 125]"

text \<open>
  The question marker is U+3010 U+95EE U+9898 U+3011 (12304, 38382, 39064, 12305), the answer
  marker U+3010 U+56DE U+7B54 U+3011 (12304, 22238, 31572, 12305). The template of a pair is
  the question marker, a newline, \<^verbatim>\<open>{}\<close>, a newline, the answer marker, a newline, \<^verbatim>\<open>{}\<close>.
\<close>

definition DEFAULT_QA_PAIR_TEMPLATE :: ustring where
  "DEFAULT_QA_PAIR_TEMPLATE =
     [12304, 38382, 39064, 12305, 10, 123, 125, 10, 12304, 22238, 31572, 12305, 10, 123, 125]"

text \<open>
  The output pattern is \<^verbatim>\<open>.*?\<close>, the question marker, \<^verbatim>\<open>\s*(.*?)\s*\<close>, the answer marker,
  \<^verbatim>\<open>\s*(.*)\<close>.
\<close>

definition DEFAULT_OUTPUT_PATTERN :: ustring where
  "DEFAULT_OUTPUT_PATTERN =
     [46, 42, 63, 12304, 38382, 39064, 12305, 92, 115, 42, 40, 46, 42, 63, 41, 92, 115, 42,
      12304, 22238, 31572, 12305, 92, 115, 42, 40, 46, 42, 41]"

section \<open>Construction\<close>

text \<open>
  \<^verbatim>\<open>x or default\<close> on an optional string: \<^verbatim>\<open>None\<close> and the empty string are both falsy.
  \<^verbatim>\<open>d or {}\<close> on an optional dictionary: \<^verbatim>\<open>None\<close> and the empty dictionary are falsy, and
  both give the empty dictionary.
\<close>

definition str_or :: "ustring option \<Rightarrow> ustring \<Rightarrow> ustring" where
  "str_or x dflt = (case x of None \<Rightarrow> dflt | Some s \<Rightarrow> if s = [] then dflt else s)"

definition dict_or_empty :: "dict option \<Rightarrow> dict" where
  "dict_or_empty x = (case x of None \<Rightarrow> Map.empty | Some d \<Rightarrow> d)"

definition prepare_model ::
  "ustring \<Rightarrow> ustring \<Rightarrow> bool option \<Rightarrow> dict \<Rightarrow> world \<Rightarrow> prepare_call \<times> world"
where
  "prepare_model mt name rp ps w =
     (let key = \<lparr>model_type = mt, pretrained_model_name_or_path = name,
                 return_pipe = rp, params = ps\<rparr>
      in (key, w\<lparr>prepared := prepared w @ [key]\<rparr>))"

text \<open>
  \<^verbatim>\<open>f(name=..., **d)\<close> where the dictionary \<open>d\<close> holds a key that the call also gives as a
  keyword: Python raises a TypeError (multiple values for the keyword argument) before the
  function is entered.
\<close>

definition has_key :: "dict \<Rightarrow> ustring \<Rightarrow> bool" where
  "has_key d k = (case d k of None \<Rightarrow> False | Some _ \<Rightarrow> True)"

text \<open>
  \<^verbatim>\<open>OptimizeQAMapper.__init__\<close>. \<open>base\<close> is the state that the base class has set up;
  \<open>self n key sp\<close> is the object with the worker-process count \<open>n\<close>, the model key
  \<open>key\<close> and the sampling parameters \<open>sp\<close>, which differ between the two backends. The
  \<^verbatim>\<open>assert\<close> is checked (the interpreter does not run with \<^verbatim>\<open>-O\<close>). The call of
  \<^verbatim>\<open>prepare_model\<close> gives \<^verbatim>\<open>model_type\<close> and \<^verbatim>\<open>pretrained_model_name_or_path\<close> as keywords, and
  on the pipeline backend \<^verbatim>\<open>return_pipe\<close> too, next to \<^verbatim>\<open>**model_params\<close>.
\<close>

definition init ::
  "mapper \<Rightarrow> ustring \<Rightarrow> ustring option \<Rightarrow> ustring option \<Rightarrow> ustring option \<Rightarrow> ustring option \<Rightarrow>
   bool \<Rightarrow> dict option \<Rightarrow> dict option \<Rightarrow> world \<Rightarrow> (exn + optimize_qa_mapper) \<times> world"
where
  "init base hf_model system_prompt' input_template' qa_pair_template' output_pattern'
        enable_vllm' model_params sampling_params' w =
     (let self = (\<lambda>n key sp.
                   \<lparr>query_key = query_key base, response_key = response_key base,
                    num_proc = n,
                    system_prompt = str_or system_prompt' DEFAULT_SYSTEM_PROMPT,
                    input_template = str_or input_template' DEFAULT_INPUT_TEMPLATE,
                    qa_pair_template = str_or qa_pair_template' DEFAULT_QA_PAIR_TEMPLATE,
                    output_pattern = str_or output_pattern' DEFAULT_OUTPUT_PATTERN,
                    enable_vllm = enable_vllm',
                    model_key = key,
                    sampling_params = sp\<rparr>);
          model_params1 = dict_or_empty model_params;
          sampling_params1 = dict_or_empty sampling_params'
      in if enable_vllm' then
           if \<not> cuda_device_count w \<ge> 1 then (Inl AssertionError, w)
           else
             (let model_params2 =
                    (if model_params1 (ustr ''tensor_parallel_size'') \<in> {None, Some PyNone}
                     then model_params1(ustr ''tensor_parallel_size'' \<mapsto>
                                          PyInt (int (cuda_device_count w)))
                     else model_params1)
              in if has_key model_params2 (ustr ''model_type'') \<or>
                    has_key model_params2 (ustr ''pretrained_model_name_or_path'')
                 then (Inl TypeError, w)
                 else
                   (let (key, w1) = prepare_model (ustr ''vllm'') hf_model None model_params2 w
                    in (Inr (self (Some 1) key (SamplingParams sampling_params1)), w1)))
         else
           if has_key model_params1 (ustr ''model_type'') \<or>
              has_key model_params1 (ustr ''pretrained_model_name_or_path'') \<or>
              has_key model_params1 (ustr ''return_pipe'')
           then (Inl TypeError, w)
           else
             (let (key, w1) =
                    prepare_model (ustr ''huggingface'') hf_model (Some True) model_params1 w
              in (Inr (self (num_proc base) key (ParamDict sampling_params1)), w1)))"

section \<open>The methods\<close>

text \<open>
  \<^verbatim>\<open>build_input(self, sample)\<close>: the two fields are read with \<^verbatim>\<open>sample[key]\<close>, a KeyError
  when the record has no such field.
\<close>

definition build_input :: "optimize_qa_mapper \<Rightarrow> sample \<Rightarrow> exn + ustring" where
  "build_input self sample =
     (case sample (query_key self) of
        None \<Rightarrow> Inl KeyError
      | Some q \<Rightarrow>
          (case sample (response_key self) of
             None \<Rightarrow> Inl KeyError
           | Some a \<Rightarrow>
               (case str_format (qa_pair_template self) [q, a] of
                  Inl e \<Rightarrow> Inl e
                | Inr qa_pair \<Rightarrow> str_format (input_template self) [qa_pair])))"

text \<open>
  \<^verbatim>\<open>match.group(i)\<close> where \<^verbatim>\<open>match\<close> is an element of the list that \<^verbatim>\<open>re.findall\<close> returned:
  a string or a tuple of strings. Neither type has an attribute \<^verbatim>\<open>group\<close>, so the
  attribute lookup raises AttributeError.
\<close>

fun item_group :: "findall_item \<Rightarrow> nat \<Rightarrow> exn + ustring" where
  "item_group (ItemStr s) i = Inl AttributeError"
| "item_group (ItemTuple gs) i = Inl AttributeError"

text \<open>
  \<^verbatim>\<open>parse_output(self, raw_output)\<close>. \<^verbatim>\<open>None\<close> in the returned pair is \<open>None\<close>.
\<close>

definition parse_output ::
  "optimize_qa_mapper \<Rightarrow> ustring \<Rightarrow> exn + (ustring option \<times> ustring option)"
where
  "parse_output self raw_output =
     (case re_findall (output_pattern self) raw_output True of
        Inl e \<Rightarrow> Inl e
      | Inr matches \<Rightarrow>
          (case matches of
             match # _ \<Rightarrow>
               (case item_group match 1 of
                  Inl e \<Rightarrow> Inl e
                | Inr g1 \<Rightarrow>
                    (case item_group match 2 of
                       Inl e \<Rightarrow> Inl e
                     | Inr g2 \<Rightarrow> Inr (Some (strip g1), Some (strip g2))))
           | [] \<Rightarrow> Inr (None, None)))"

text \<open>
  The model call of \<^verbatim>\<open>process_single\<close> (the \<^verbatim>\<open>if self.enable_vllm\<close> statement): the request
  is recorded in the world, and the raw reply is \<^verbatim>\<open>response[0].outputs[0].text\<close> or
  \<^verbatim>\<open>response[0]['generated_text']\<close>. On the pipeline backend \<^verbatim>\<open>**self.sampling_params\<close>
  needs a dictionary, and a key \<^verbatim>\<open>return_full_text\<close> in it collides with the keyword
  argument of the call; both are a TypeError before the model is called.
\<close>

definition call_model ::
  "llm \<Rightarrow> optimize_qa_mapper \<Rightarrow> message list \<Rightarrow> world \<Rightarrow> (exn + ustring) \<times> world"
where
  "call_model model self messages w =
     (if enable_vllm self then
        (let w1 = w\<lparr>requests := requests w @ [Chat messages (sampling_params self)]\<rparr> in
         case chat model messages (sampling_params self) of
           Inl e \<Rightarrow> (Inl e, w1)
         | Inr response \<Rightarrow>
             (case response of
                [] \<Rightarrow> (Inl IndexError, w1)
              | r0 # _ \<Rightarrow>
                  (case r0 of
                     [] \<Rightarrow> (Inl IndexError, w1)
                   | text # _ \<Rightarrow> (Inr text, w1))))
      else
        (case sampling_params self of
           SamplingParams _ \<Rightarrow> (Inl TypeError, w)
         | ParamDict kwargs \<Rightarrow>
             if kwargs (ustr ''return_full_text'') \<noteq> None then (Inl TypeError, w)
             else
               (let w1 = w\<lparr>requests := requests w @ [Pipe messages False kwargs]\<rparr> in
                case pipe model messages False kwargs of
                  Inl e \<Rightarrow> (Inl e, w1)
                | Inr response \<Rightarrow>
                    (case response of
                       [] \<Rightarrow> (Inl IndexError, w1)
                     | r0 # _ \<Rightarrow>
                         (case r0 (ustr ''generated_text'') of
                            None \<Rightarrow> (Inl KeyError, w1)
                          | Some text \<Rightarrow> (Inr text, w1))))))"

text \<open>
  \<^verbatim>\<open>sample[key] = value\<close> on the record behind a reference.
\<close>

definition setitem :: "ref \<Rightarrow> ustring \<Rightarrow> ustring \<Rightarrow> world \<Rightarrow> world" where
  "setitem r key v w =
     (case heap w r of
        None \<Rightarrow> w
      | Some d \<Rightarrow> w\<lparr>heap := (heap w)(r \<mapsto> d(key \<mapsto> v))\<rparr>)"

text \<open>
  \<^verbatim>\<open>if parsed: sample[key] = parsed\<close>, where \<^verbatim>\<open>parsed\<close> is \<^verbatim>\<open>None\<close> or a string: \<^verbatim>\<open>None\<close>
  and the empty string are falsy.
\<close>

definition set_if_truthy :: "ref \<Rightarrow> ustring \<Rightarrow> ustring option \<Rightarrow> world \<Rightarrow> world" where
  "set_if_truthy r key parsed w =
     (case parsed of
        None \<Rightarrow> w
      | Some v \<Rightarrow> if v \<noteq> [] then setitem r key v w else w)"

text \<open>
  The two conditional assignments at the end of \<^verbatim>\<open>process_single\<close>, the question first.
\<close>

definition write_back ::
  "optimize_qa_mapper \<Rightarrow> ref \<Rightarrow> ustring option \<times> ustring option \<Rightarrow> world \<Rightarrow> world"
where
  "write_back self sample parsed w =
     (case parsed of
        (parsed_q, parsed_a) \<Rightarrow>
          set_if_truthy sample (response_key self) parsed_a
            (set_if_truthy sample (query_key self) parsed_q w))"

text \<open>
  \<^verbatim>\<open>process_single(self, sample, rank)\<close>. \<open>model\<close> is the model that \<^verbatim>\<open>get_model\<close> returned
  and \<open>sample\<close> the reference to the caller's record; an argument that is not a record
  (the default \<^verbatim>\<open>None\<close>) cannot be subscripted, a TypeError. The result is the reference
  that the method returns, or the exception that leaves it, and the world afterwards.
\<close>

definition process_single ::
  "llm \<Rightarrow> optimize_qa_mapper \<Rightarrow> ref \<Rightarrow> world \<Rightarrow> (exn + ref) \<times> world"
where
  "process_single model self sample w =
     (case heap w sample of
        None \<Rightarrow> (Inl TypeError, w)
      | Some d \<Rightarrow>
          (case build_input self d of
             Inl e \<Rightarrow> (Inl e, w)
           | Inr input_prompt \<Rightarrow>
               (let messages = [\<lparr>role = ustr ''system'', content = system_prompt self\<rparr>,
                                \<lparr>role = ustr ''user'', content = input_prompt\<rparr>]
                in case call_model model self messages w of
                     (Inl e, w1) \<Rightarrow> (Inl e, w1)
                   | (Inr output, w1) \<Rightarrow>
                       (case parse_output self output of
                          Inl e \<Rightarrow> (Inl e, w1)
                        | Inr parsed \<Rightarrow> (Inr sample, write_back self sample parsed w1)))))"

section \<open>Fixtures\<close>

text \<open>
  The state of the base class with the field names \<^verbatim>\<open>query\<close> and \<^verbatim>\<open>response\<close> and four
  worker processes; an operator with the default prompt, templates and pattern on the
  pipeline backend; a model that answers every request with one fixed reply; and a world
  with two records and no CUDA device.
\<close>

definition base4 :: mapper where
  "base4 = \<lparr>query_key = ustr ''query'', response_key = ustr ''response'', num_proc = Some 4\<rparr>"

definition qwen :: ustring where
  "qwen = ustr ''Qwen/Qwen2.5-7B-Instruct''"

definition pipeline_op :: optimize_qa_mapper where
  "pipeline_op =
     \<lparr>query_key = ustr ''query'', response_key = ustr ''response'', num_proc = Some 4,
      system_prompt = DEFAULT_SYSTEM_PROMPT,
      input_template = DEFAULT_INPUT_TEMPLATE,
      qa_pair_template = DEFAULT_QA_PAIR_TEMPLATE,
      output_pattern = DEFAULT_OUTPUT_PATTERN,
      enable_vllm = False,
      model_key = \<lparr>model_type = ustr ''huggingface'', pretrained_model_name_or_path = qwen,
                   return_pipe = Some True, params = Map.empty\<rparr>,
      sampling_params = ParamDict Map.empty\<rparr>"

definition replying :: "ustring \<Rightarrow> llm" where
  "replying reply =
     \<lparr>chat = (\<lambda>messages sp. Inr [[reply]]),
      pipe = (\<lambda>messages full kwargs. Inr [[ustr ''generated_text'' \<mapsto> reply]])\<rparr>"

definition qa_record :: sample where
  "qa_record = [ustr ''query'' \<mapsto> ustr ''Q1'', ustr ''response'' \<mapsto> ustr ''A1'',
                ustr ''source'' \<mapsto> ustr ''faq'']"

definition dataset :: world where
  "dataset =
     \<lparr>heap = [0 \<mapsto> qa_record,
              1 \<mapsto> [ustr ''query'' \<mapsto> ustr ''Q2'', ustr ''response'' \<mapsto> ustr ''A2'']],
      cuda_device_count = 0, prepared = [], requests = []\<rparr>"

text \<open>
  The operator that the constructor builds on the batched engine in a world with two CUDA
  devices.
\<close>

definition vllm_op :: optimize_qa_mapper where
  "vllm_op =
     \<lparr>query_key = ustr ''query'', response_key = ustr ''response'', num_proc = Some 1,
      system_prompt = DEFAULT_SYSTEM_PROMPT,
      input_template = DEFAULT_INPUT_TEMPLATE,
      qa_pair_template = DEFAULT_QA_PAIR_TEMPLATE,
      output_pattern = DEFAULT_OUTPUT_PATTERN,
      enable_vllm = True,
      model_key = \<lparr>model_type = ustr ''vllm'', pretrained_model_name_or_path = qwen,
                   return_pipe = None,
                   params = [ustr ''tensor_parallel_size'' \<mapsto> PyInt 2]\<rparr>,
      sampling_params = SamplingParams Map.empty\<rparr>"

definition two_gpus :: world where
  "two_gpus = dataset\<lparr>cuda_device_count := 2\<rparr>"

text \<open>
  Four replies of a model: one with text around the two sections, one without any marker,
  one whose question section is empty, and one that has exactly the format that the system
  prompt asks for.
\<close>

definition noisy_reply :: ustring where
  "noisy_reply =
     ustr ''noise'' @ [12304, 38382, 39064, 12305] @ ustr ''\<newline>  New Q  \<newline>'' @
     [12304, 22238, 31572, 12305] @ ustr ''\<newline>  New A  \<newline>more noise''"

definition garbage_reply :: ustring where
  "garbage_reply = ustr ''garbage, no markers at all''"

definition empty_question_reply :: ustring where
  "empty_question_reply =
     [12304, 38382, 39064, 12305] @ ustr ''\<newline>\<newline>'' @
     [12304, 22238, 31572, 12305] @ ustr ''\<newline>A2''"

definition clean_reply :: ustring where
  "clean_reply =
     [12304, 38382, 39064, 12305] @ ustr ''\<newline>New Q\<newline>'' @
     [12304, 22238, 31572, 12305] @ ustr ''\<newline>New A''"

section \<open>Evaluating the library model\<close>

text \<open>The program of the default output pattern, and \<^verbatim>\<open>re.findall\<close> on the three replies.\<close>

lemma default_pattern_program:
  "compile DEFAULT_OUTPUT_PATTERN (Suc 0) [] =
     Inr ([Item AnyChar Star False,
           Item (Lit 12304) Once True, Item (Lit 38382) Once True,
           Item (Lit 39064) Once True, Item (Lit 12305) Once True,
           Item Space Star True, Open 1, Item AnyChar Star False, Close 1,
           Item Space Star True,
           Item (Lit 12304) Once True, Item (Lit 22238) Once True,
           Item (Lit 31572) Once True, Item (Lit 12305) Once True,
           Item Space Star True, Open 2, Item AnyChar Star True, Close 2], 2)"
  by (simp add: DEFAULT_OUTPUT_PATTERN_def read_atom_def read_quant_def emit_def peek_def
      is_alnum_def)

lemmas scan_simps =
  re_findall_def default_pattern_program ustr_def matches_at_def is_space_def
  make_item_def group_text_def numeral_2_eq_2

lemma findall_garbage: "re_findall DEFAULT_OUTPUT_PATTERN garbage_reply True = Inr []"
  by (simp add: scan_simps garbage_reply_def)

lemma findall_noisy:
  "re_findall DEFAULT_OUTPUT_PATTERN noisy_reply True =
     Inr [ItemTuple [ustr ''New Q'', ustr ''New A  \<newline>more noise'']]"
  by (simp add: scan_simps noisy_reply_def)

lemma findall_empty_question:
  "re_findall DEFAULT_OUTPUT_PATTERN empty_question_reply True = Inr [ItemTuple [[], ustr ''A2'']]"
  by (simp add: scan_simps empty_question_reply_def)

lemma findall_clean:
  "re_findall DEFAULT_OUTPUT_PATTERN clean_reply True =
     Inr [ItemTuple [ustr ''New Q'', ustr ''New A'']]"
  by (simp add: scan_simps clean_reply_def)

lemma build_input_default:
  "build_input pipeline_op qa_record =
     Inr [20197, 19979, 26159, 21407, 22987, 38382, 31572, 23545, 65306, 10,
          12304, 38382, 39064, 12305, 10, 81, 49, 10,
          12304, 22238, 31572, 12305, 10, 65, 49]"
  by (simp add: build_input_def pipeline_op_def qa_record_def ustr_def
      DEFAULT_INPUT_TEMPLATE_def DEFAULT_QA_PAIR_TEMPLATE_def)

section \<open>Parsing and the frame of the write-back\<close>

lemma parse_output_none:
  "re_findall (output_pattern self) raw True = Inr [] \<Longrightarrow> parse_output self raw = Inr (None, None)"
  by (simp add: parse_output_def)

lemma parse_output_raises:
  "re_findall (output_pattern self) raw True = Inr (m # ms) \<Longrightarrow>
   parse_output self raw = Inl AttributeError"
  by (cases m) (simp_all add: parse_output_def)

text \<open>Whenever \<^verbatim>\<open>parse_output\<close> returns, it returns the pair of \<^verbatim>\<open>None\<close>.\<close>

lemma parse_output_returns:
  assumes "parse_output self raw = Inr parsed"
  shows "parsed = (None, None)"
proof (cases "re_findall (output_pattern self) raw True")
  case (Inl e)
  with assms show ?thesis by (simp add: parse_output_def)
next
  case (Inr matches)
  show ?thesis
  proof (cases matches)
    case Nil
    with Inr assms show ?thesis by (simp add: parse_output_def)
  next
    case (Cons m ms)
    with Inr have "parse_output self raw = Inl AttributeError"
      by (simp add: parse_output_raises)
    with assms show ?thesis by simp
  qed
qed

lemma call_model_heap: "call_model model self messages w = (res, w1) \<Longrightarrow> heap w1 = heap w"
  by (auto simp: call_model_def Let_def split: if_splits sum.splits list.splits
      sampling.splits option.splits)

lemma setitem_frame:
  "dom (heap (setitem r key v w)) = dom (heap w) \<and>
   (\<forall>r'. r' \<noteq> r \<longrightarrow> heap (setitem r key v w) r' = heap w r') \<and>
   (\<forall>d. heap w r = Some d \<longrightarrow> heap (setitem r key v w) r = Some (d(key \<mapsto> v)))"
  by (auto simp: setitem_def split: option.splits)

lemma set_if_truthy_frame:
  "dom (heap (set_if_truthy r key parsed w)) = dom (heap w) \<and>
   (\<forall>r'. r' \<noteq> r \<longrightarrow> heap (set_if_truthy r key parsed w) r' = heap w r') \<and>
   (\<forall>d. heap w r = Some d \<longrightarrow>
      (\<exists>d'. heap (set_if_truthy r key parsed w) r = Some d' \<and>
            (\<forall>k. k \<noteq> key \<longrightarrow> d' k = d k) \<and>
            (d' key = d key \<or> (\<exists>v. parsed = Some v \<and> v \<noteq> [] \<and> d' key = Some v))))"
  using setitem_frame [of r key _ w]
  by (auto simp: set_if_truthy_def split: option.splits)

lemma write_back_frame:
  "dom (heap (write_back self r (pq, pa) w)) = dom (heap w) \<and>
   (\<forall>r'. r' \<noteq> r \<longrightarrow> heap (write_back self r (pq, pa) w) r' = heap w r') \<and>
   (\<forall>d. heap w r = Some d \<longrightarrow>
      (\<exists>d'. heap (write_back self r (pq, pa) w) r = Some d' \<and>
            (\<forall>k. k \<noteq> query_key self \<longrightarrow> k \<noteq> response_key self \<longrightarrow> d' k = d k) \<and>
            (\<forall>k. d' k = d k \<or>
                 (\<exists>v. v \<noteq> [] \<and> d' k = Some v \<and> (pq = Some v \<or> pa = Some v)))))"
proof -
  let ?w1 = "set_if_truthy r (query_key self) pq w"
  note a = set_if_truthy_frame [of r "query_key self" pq w]
  note b = set_if_truthy_frame [of r "response_key self" pa ?w1]
  have wb: "write_back self r (pq, pa) w = set_if_truthy r (response_key self) pa ?w1"
    by (simp add: write_back_def)
  show ?thesis
  proof (intro conjI allI impI)
    show "dom (heap (write_back self r (pq, pa) w)) = dom (heap w)"
      using a b by (simp add: wb)
  next
    fix r' assume "r' \<noteq> r"
    then show "heap (write_back self r (pq, pa) w) r' = heap w r'"
      using a b by (simp add: wb)
  next
    fix d assume d: "heap w r = Some d"
    from a d obtain d1 where d1: "heap ?w1 r = Some d1"
      and f1: "\<forall>k. k \<noteq> query_key self \<longrightarrow> d1 k = d k"
      and v1: "d1 (query_key self) = d (query_key self) \<or>
               (\<exists>v. pq = Some v \<and> v \<noteq> [] \<and> d1 (query_key self) = Some v)"
      by blast
    from b d1 obtain d2 where d2: "heap (write_back self r (pq, pa) w) r = Some d2"
      and f2: "\<forall>k. k \<noteq> response_key self \<longrightarrow> d2 k = d1 k"
      and v2: "d2 (response_key self) = d1 (response_key self) \<or>
               (\<exists>v. pa = Some v \<and> v \<noteq> [] \<and> d2 (response_key self) = Some v)"
      unfolding wb by blast
    have other: "\<forall>k. k \<noteq> query_key self \<longrightarrow> k \<noteq> response_key self \<longrightarrow> d2 k = d k"
      using f1 f2 by simp
    have each: "d2 k = d k \<or> (\<exists>v. v \<noteq> [] \<and> d2 k = Some v \<and> (pq = Some v \<or> pa = Some v))" for k
    proof (cases "k = response_key self")
      case True
      then show ?thesis using v2 v1 f1 by (cases "k = query_key self") auto
    next
      case False
      then have "d2 k = d1 k" using f2 by simp
      then show ?thesis using v1 f1 by (cases "k = query_key self") auto
    qed
    show "\<exists>d'. heap (write_back self r (pq, pa) w) r = Some d' \<and>
            (\<forall>k. k \<noteq> query_key self \<longrightarrow> k \<noteq> response_key self \<longrightarrow> d' k = d k) \<and>
            (\<forall>k. d' k = d k \<or>
                 (\<exists>v. v \<noteq> [] \<and> d' k = Some v \<and> (pq = Some v \<or> pa = Some v)))"
      using d2 other each by blast
  qed
qed

text \<open>
  The outcomes of \<^verbatim>\<open>process_single\<close>: an exception that leaves the store as it was, or the
  reference of the record and the store after the two conditional assignments.
\<close>

lemma process_single_cases:
  assumes "process_single model self sample w = (res, w')"
  shows "(heap w' = heap w \<and> (\<exists>e. res = Inl e)) \<or>
         (\<exists>d inp raw w1 parsed.
            heap w sample = Some d \<and> build_input self d = Inr inp \<and>
            call_model model self
              [\<lparr>role = ustr ''system'', content = system_prompt self\<rparr>,
               \<lparr>role = ustr ''user'', content = inp\<rparr>] w = (Inr raw, w1) \<and>
            parse_output self raw = Inr parsed \<and>
            res = Inr sample \<and> w' = write_back self sample parsed w1)"
  using assms
  by (auto simp: process_single_def Let_def dest: call_model_heap
      split: option.splits sum.splits prod.splits)
lemma write_back_nothing: "write_back self r (None, None) w = w"
  by (simp add: write_back_def set_if_truthy_def)

text \<open>No call of \<^verbatim>\<open>process_single\<close> changes the store.\<close>

lemma process_single_heap: "heap (snd (process_single model self sample w)) = heap w"
proof -
  obtain res w' where run: "process_single model self sample w = (res, w')"
    by (cases "process_single model self sample w")
  from process_single_cases [OF run] have "heap w' = heap w"
  proof (elim disjE exE conjE)
    fix d inp raw w1 parsed
    assume c: "call_model model self
                 [\<lparr>role = ustr ''system'', content = system_prompt self\<rparr>,
                  \<lparr>role = ustr ''user'', content = inp\<rparr>] w = (Inr raw, w1)"
      and p: "parse_output self raw = Inr parsed"
      and w': "w' = write_back self sample parsed w1"
    show ?thesis
      using call_model_heap [OF c] parse_output_returns [OF p] w'
      by (simp add: write_back_nothing)
  qed
  with run show ?thesis by simp
qed

text \<open>The requests that a call of \<^verbatim>\<open>process_single\<close> adds to the world.\<close>

lemma requests_set_if_truthy: "requests (set_if_truthy r key parsed w) = requests w"
  by (simp add: set_if_truthy_def setitem_def split: option.splits)

lemma requests_write_back: "requests (write_back self r parsed w) = requests w"
  by (cases parsed) (simp add: write_back_def requests_set_if_truthy)

lemma call_model_chat_requests:
  "enable_vllm self \<Longrightarrow>
   requests (snd (call_model model self messages w)) =
     requests w @ [Chat messages (sampling_params self)]"
  by (simp add: call_model_def Let_def split: sum.splits list.splits)

lemma call_model_pipe_requests:
  "\<not> enable_vllm self \<Longrightarrow> sampling_params self = ParamDict kwargs \<Longrightarrow>
   kwargs (ustr ''return_full_text'') = None \<Longrightarrow>
   requests (snd (call_model model self messages w)) = requests w @ [Pipe messages False kwargs]"
  by (simp add: call_model_def Let_def split: sum.splits list.splits option.splits)

lemma process_single_requests:
  "heap w sample = Some d \<Longrightarrow> build_input self d = Inr inp \<Longrightarrow>
   requests (snd (process_single model self sample w)) =
     requests (snd (call_model model self
        [\<lparr>role = ustr ''system'', content = system_prompt self\<rparr>,
         \<lparr>role = ustr ''user'', content = inp\<rparr>] w))"
  by (simp add: process_single_def requests_write_back split: prod.splits sum.splits)

text \<open>The defaults of the constructor.\<close>

lemma str_or_nonempty: "dflt \<noteq> [] \<Longrightarrow> str_or x dflt \<noteq> []"
  by (simp add: str_or_def split: option.splits)

lemma str_or_empty: "str_or (Some []) dflt = str_or None dflt"
  by (simp add: str_or_def)

section \<open>The fixtures evaluated\<close>

lemma call_model_replying:
  "call_model (replying reply) pipeline_op messages w =
     (Inr reply, w\<lparr>requests := requests w @ [Pipe messages False Map.empty]\<rparr>)"
  by (simp add: call_model_def replying_def pipeline_op_def)

lemma heap_dataset_0: "heap dataset 0 = Some qa_record"
  by (simp add: dataset_def)

lemma pattern_pipeline_op: "output_pattern pipeline_op = DEFAULT_OUTPUT_PATTERN"
  by (simp add: pipeline_op_def)

lemma process_single_garbage:
  "process_single (replying garbage_reply) pipeline_op 0 dataset =
     (Inr 0, dataset\<lparr>requests := [Pipe
        [\<lparr>role = ustr ''system'', content = DEFAULT_SYSTEM_PROMPT\<rparr>,
         \<lparr>role = ustr ''user'', content =
            [20197, 19979, 26159, 21407, 22987, 38382, 31572, 23545, 65306, 10,
             12304, 38382, 39064, 12305, 10, 81, 49, 10,
             12304, 22238, 31572, 12305, 10, 65, 49]\<rparr>] False Map.empty]\<rparr>)"
proof -
  have p: "parse_output pipeline_op garbage_reply = Inr (None, None)"
    by (rule parse_output_none) (simp add: pattern_pipeline_op findall_garbage)
  have s: "system_prompt pipeline_op = DEFAULT_SYSTEM_PROMPT"
    by (simp add: pipeline_op_def)
  have r: "requests dataset = []"
    by (simp add: dataset_def)
  show ?thesis
    by (simp add: process_single_def heap_dataset_0 build_input_default call_model_replying p s r
        write_back_def set_if_truthy_def)
qed

lemma process_single_empty_question:
  "process_single (replying empty_question_reply) pipeline_op 0 dataset =
     (Inl AttributeError, dataset\<lparr>requests := [Pipe
        [\<lparr>role = ustr ''system'', content = DEFAULT_SYSTEM_PROMPT\<rparr>,
         \<lparr>role = ustr ''user'', content =
            [20197, 19979, 26159, 21407, 22987, 38382, 31572, 23545, 65306, 10,
             12304, 38382, 39064, 12305, 10, 81, 49, 10,
             12304, 22238, 31572, 12305, 10, 65, 49]\<rparr>] False Map.empty]\<rparr>)"
proof -
  have p: "parse_output pipeline_op empty_question_reply = Inl AttributeError"
    by (rule parse_output_raises) (simp add: pattern_pipeline_op findall_empty_question)
  have s: "system_prompt pipeline_op = DEFAULT_SYSTEM_PROMPT"
    by (simp add: pipeline_op_def)
  have r: "requests dataset = []"
    by (simp add: dataset_def)
  show ?thesis
    by (simp add: process_single_def heap_dataset_0 build_input_default call_model_replying p s r)
qed

lemma process_single_clean:
  "process_single (replying clean_reply) pipeline_op 0 dataset =
     (Inl AttributeError, dataset\<lparr>requests := [Pipe
        [\<lparr>role = ustr ''system'', content = DEFAULT_SYSTEM_PROMPT\<rparr>,
         \<lparr>role = ustr ''user'', content =
            [20197, 19979, 26159, 21407, 22987, 38382, 31572, 23545, 65306, 10,
             12304, 38382, 39064, 12305, 10, 81, 49, 10,
             12304, 22238, 31572, 12305, 10, 65, 49]\<rparr>] False Map.empty]\<rparr>)"
proof -
  have p: "parse_output pipeline_op clean_reply = Inl AttributeError"
    by (rule parse_output_raises) (simp add: pattern_pipeline_op findall_clean)
  have s: "system_prompt pipeline_op = DEFAULT_SYSTEM_PROMPT"
    by (simp add: pipeline_op_def)
  have r: "requests dataset = []"
    by (simp add: dataset_def)
  show ?thesis
    by (simp add: process_single_def heap_dataset_0 build_input_default call_model_replying p s r)
qed

lemma init_pipeline_op:
  "init base4 qwen None None None None False None None dataset =
     (Inr pipeline_op, dataset\<lparr>prepared := [model_key pipeline_op]\<rparr>)"
  by (simp add: init_def Let_def prepare_model_def has_key_def str_or_def dict_or_empty_def
      base4_def pipeline_op_def dataset_def)

lemma init_vllm_op:
  "init base4 qwen None None None None True None None two_gpus =
     (Inr vllm_op, two_gpus\<lparr>prepared := [model_key vllm_op]\<rparr>)"
  by (simp add: init_def Let_def prepare_model_def has_key_def str_or_def dict_or_empty_def
      base4_def vllm_op_def two_gpus_def dataset_def ustr_def)

lemma build_input_vllm_op:
  "build_input vllm_op qa_record =
     Inr [20197, 19979, 26159, 21407, 22987, 38382, 31572, 23545, 65306, 10,
          12304, 38382, 39064, 12305, 10, 81, 49, 10,
          12304, 22238, 31572, 12305, 10, 65, 49]"
  by (simp add: build_input_def vllm_op_def qa_record_def ustr_def DEFAULT_INPUT_TEMPLATE_def
      DEFAULT_QA_PAIR_TEMPLATE_def)

section \<open>The claims\<close>

subsection \<open>C1: a reply with a match\<close>

text \<open>
  C1 at the reply \<open>noisy_reply\<close> (the word noise, the question marker, a newline, \<^verbatim>\<open>New Q\<close>
  between two spaces on each side, a newline, the answer marker, a newline, \<^verbatim>\<open>New A\<close>
  between two spaces on each side, a newline, the words more noise). The default pattern
  finds a match, so \<^verbatim>\<open>parse_output\<close> should return the two stripped groups of the first
  match. The code raises AttributeError instead: the list that \<^verbatim>\<open>re.findall\<close> returns holds
  a tuple of strings, and \<^verbatim>\<open>match.group(1)\<close> is called on that tuple.
\<close>

theorem parse_output_noisy_reply_raises:
  "re_findall DEFAULT_OUTPUT_PATTERN noisy_reply True =
     Inr [ItemTuple [ustr ''New Q'', ustr ''New A  \<newline>more noise'']] \<and>
   parse_output pipeline_op noisy_reply = Inl AttributeError \<and>
   parse_output pipeline_op noisy_reply \<noteq> Inr (Some (ustr ''New Q''), Some (ustr ''New A''))"
proof -
  have "parse_output pipeline_op noisy_reply = Inl AttributeError"
    by (rule parse_output_raises) (simp add: pattern_pipeline_op findall_noisy)
  then show ?thesis by (simp add: findall_noisy)
qed

subsection \<open>C2: a reply without a match\<close>

text \<open>
  C2. For every raw reply on which the configured output pattern finds no match,
  \<^verbatim>\<open>parse_output\<close> returns the pair (\<^verbatim>\<open>None\<close>, \<^verbatim>\<open>None\<close>) and raises nothing; with the
  default pattern the reply \<^verbatim>\<open>garbage, no markers at all\<close> is parsed to (\<^verbatim>\<open>None\<close>, \<^verbatim>\<open>None\<close>).
\<close>

theorem parse_output_no_match:
  "(re_findall (output_pattern self) raw True = Inr [] \<longrightarrow>
      parse_output self raw = Inr (None, None)) \<and>
   (output_pattern self = DEFAULT_OUTPUT_PATTERN \<longrightarrow>
      parse_output self garbage_reply = Inr (None, None))"
  using findall_garbage by (simp add: parse_output_def)

theorem parse_output_no_match_witness:
  "re_findall (output_pattern pipeline_op) garbage_reply True = Inr [] \<and>
   output_pattern pipeline_op = DEFAULT_OUTPUT_PATTERN \<and>
   parse_output pipeline_op garbage_reply = Inr (None, None)"
proof -
  have h: "re_findall (output_pattern pipeline_op) garbage_reply True = Inr []"
    by (simp add: pattern_pipeline_op findall_garbage)
  show ?thesis
    using h pattern_pipeline_op parse_output_no_match [of pipeline_op garbage_reply] by simp
qed

subsection \<open>C3: a field keeps its value or takes a parsed one\<close>

text \<open>
  C3. After \<^verbatim>\<open>process_single\<close> on a record, whether it returns or raises, each of the
  question field and the answer field holds its original value or a non-empty string that
  \<^verbatim>\<open>parse_output\<close> returned; and when the pattern finds no match in the reply of the model,
  the method returns the record with both fields as they were.
\<close>

theorem fields_original_or_parsed:
  assumes "heap w sample = Some d"
    and "process_single model self sample w = (res, w')"
  shows "(\<exists>d'. heap w' sample = Some d' \<and>
            (\<forall>k \<in> {query_key self, response_key self}.
               d' k = d k \<or>
               (\<exists>v raw pq pa. v \<noteq> [] \<and> d' k = Some v \<and>
                  parse_output self raw = Inr (pq, pa) \<and> (pq = Some v \<or> pa = Some v)))) \<and>
         (\<forall>inp raw w1.
            build_input self d = Inr inp \<and>
            call_model model self
              [\<lparr>role = ustr ''system'', content = system_prompt self\<rparr>,
               \<lparr>role = ustr ''user'', content = inp\<rparr>] w = (Inr raw, w1) \<and>
            re_findall (output_pattern self) raw True = Inr [] \<longrightarrow>
            res = Inr sample \<and> heap w' sample = Some d)"
proof (rule conjI)
  from process_single_cases [OF assms(2)]
  show "\<exists>d'. heap w' sample = Some d' \<and>
            (\<forall>k \<in> {query_key self, response_key self}.
               d' k = d k \<or>
               (\<exists>v raw pq pa. v \<noteq> [] \<and> d' k = Some v \<and>
                  parse_output self raw = Inr (pq, pa) \<and> (pq = Some v \<or> pa = Some v)))"
  proof (elim disjE exE conjE)
    assume "heap w' = heap w"
    then show ?thesis using assms(1) by simp
  next
    fix d0 inp raw w1 parsed
    assume c: "call_model model self
              [\<lparr>role = ustr ''system'', content = system_prompt self\<rparr>,
               \<lparr>role = ustr ''user'', content = inp\<rparr>] w = (Inr raw, w1)"
      and p: "parse_output self raw = Inr parsed"
      and w': "w' = write_back self sample parsed w1"
    obtain pq pa where parsed: "parsed = (pq, pa)" by (cases parsed)
    have h1: "heap w1 sample = Some d"
      using call_model_heap [OF c] assms(1) by simp
    from write_back_frame [of self sample pq pa w1] h1
    obtain d' where d': "heap w' sample = Some d'"
      and each: "\<forall>k. d' k = d k \<or>
                 (\<exists>v. v \<noteq> [] \<and> d' k = Some v \<and> (pq = Some v \<or> pa = Some v))"
      unfolding w' parsed by blast
    have "d' k = d k \<or>
          (\<exists>v raw pq pa. v \<noteq> [] \<and> d' k = Some v \<and>
             parse_output self raw = Inr (pq, pa) \<and> (pq = Some v \<or> pa = Some v))" for k
    proof (cases "d' k = d k")
      case True
      then show ?thesis by simp
    next
      case False
      with each obtain v where v: "v \<noteq> []" "d' k = Some v" "pq = Some v \<or> pa = Some v"
        by auto
      have "v \<noteq> [] \<and> d' k = Some v \<and>
            parse_output self raw = Inr (pq, pa) \<and> (pq = Some v \<or> pa = Some v)"
        using v p parsed by simp
      then show ?thesis by (intro disjI2 exI)
    qed
    then show ?thesis using d' by blast
  qed
next
  show "\<forall>inp raw w1.
            build_input self d = Inr inp \<and>
            call_model model self
              [\<lparr>role = ustr ''system'', content = system_prompt self\<rparr>,
               \<lparr>role = ustr ''user'', content = inp\<rparr>] w = (Inr raw, w1) \<and>
            re_findall (output_pattern self) raw True = Inr [] \<longrightarrow>
            res = Inr sample \<and> heap w' sample = Some d"
  proof (intro allI impI, elim conjE)
    fix inp raw w1
    assume b: "build_input self d = Inr inp"
      and c: "call_model model self
              [\<lparr>role = ustr ''system'', content = system_prompt self\<rparr>,
               \<lparr>role = ustr ''user'', content = inp\<rparr>] w = (Inr raw, w1)"
      and f: "re_findall (output_pattern self) raw True = Inr []"
    have "process_single model self sample w = (Inr sample, w1)"
      by (simp add: process_single_def assms(1) b c parse_output_none [OF f] write_back_nothing)
    then have "res = Inr sample" and "w' = w1"
      using assms(2) by simp_all
    then show "res = Inr sample \<and> heap w' sample = Some d"
      using call_model_heap [OF c] assms(1) by simp
  qed
qed

theorem fields_original_or_parsed_witness:
  "heap dataset 0 = Some qa_record \<and>
   build_input pipeline_op qa_record =
     Inr [20197, 19979, 26159, 21407, 22987, 38382, 31572, 23545, 65306, 10,
          12304, 38382, 39064, 12305, 10, 81, 49, 10,
          12304, 22238, 31572, 12305, 10, 65, 49] \<and>
   re_findall (output_pattern pipeline_op) garbage_reply True = Inr [] \<and>
   fst (process_single (replying garbage_reply) pipeline_op 0 dataset) = Inr 0 \<and>
   heap (snd (process_single (replying garbage_reply) pipeline_op 0 dataset)) 0 = Some qa_record"
proof -
  let ?res = "fst (process_single (replying garbage_reply) pipeline_op 0 dataset)"
  let ?w' = "snd (process_single (replying garbage_reply) pipeline_op 0 dataset)"
  let ?inp = "[20197, 19979, 26159, 21407, 22987, 38382, 31572, 23545, 65306, 10,
          12304, 38382, 39064, 12305, 10, 81, 49, 10,
          12304, 22238, 31572, 12305, 10, 65, 49] :: ustring"
  let ?w1 = "dataset\<lparr>requests := requests dataset @
              [Pipe [\<lparr>role = ustr ''system'', content = system_prompt pipeline_op\<rparr>,
                     \<lparr>role = ustr ''user'', content = ?inp\<rparr>] False Map.empty]\<rparr>"
  have run: "process_single (replying garbage_reply) pipeline_op 0 dataset = (?res, ?w')"
    by (rule prod.collapse [symmetric])
  have f: "re_findall (output_pattern pipeline_op) garbage_reply True = Inr []"
    by (simp add: pattern_pipeline_op findall_garbage)
  have c: "call_model (replying garbage_reply) pipeline_op
             [\<lparr>role = ustr ''system'', content = system_prompt pipeline_op\<rparr>,
              \<lparr>role = ustr ''user'', content = ?inp\<rparr>] dataset = (Inr garbage_reply, ?w1)"
    by (rule call_model_replying)
  note inst = fields_original_or_parsed [OF heap_dataset_0 run, THEN conjunct2, THEN spec,
      THEN spec, THEN spec, of ?inp garbage_reply ?w1]
  have "?res = Inr 0 \<and> heap ?w' 0 = Some qa_record"
    using inst build_input_default c f by simp
  then show ?thesis
    using heap_dataset_0 build_input_default f by simp
qed

subsection \<open>C4: a reply with an empty question section\<close>

text \<open>
  C4 at the reply \<open>empty_question_reply\<close> (the question marker, two newlines, the answer
  marker, a newline, \<^verbatim>\<open>A2\<close>). The default pattern matches it with an empty first group and
  the second group \<^verbatim>\<open>A2\<close>, so the answer field should become \<^verbatim>\<open>A2\<close>. The code raises
  AttributeError in \<^verbatim>\<open>parse_output\<close> instead, and the record keeps its answer \<^verbatim>\<open>A1\<close>.
\<close>

theorem empty_question_reply_raises:
  "re_findall DEFAULT_OUTPUT_PATTERN empty_question_reply True = Inr [ItemTuple [[], ustr ''A2'']] \<and>
   fst (process_single (replying empty_question_reply) pipeline_op 0 dataset) = Inl AttributeError \<and>
   heap (snd (process_single (replying empty_question_reply) pipeline_op 0 dataset)) 0 =
     Some qa_record"
  by (simp add: findall_empty_question process_single_empty_question heap_dataset_0)

subsection \<open>C5: the input built from the default templates\<close>

text \<open>
  C5. With the default input template and the default template of a pair, for a record
  whose question is \<^verbatim>\<open>Q1\<close> and whose answer is \<^verbatim>\<open>A1\<close>, \<^verbatim>\<open>build_input\<close> returns exactly
  the text U+4EE5 U+4E0B U+662F U+539F U+59CB U+95EE U+7B54 U+5BF9 U+FF1A, a newline, the
  question marker, a newline, \<^verbatim>\<open>Q1\<close>, a newline, the answer marker, a newline, \<^verbatim>\<open>A1\<close>.
\<close>

theorem build_input_default_templates:
  "input_template self = DEFAULT_INPUT_TEMPLATE \<Longrightarrow>
   qa_pair_template self = DEFAULT_QA_PAIR_TEMPLATE \<Longrightarrow>
   sample (query_key self) = Some (ustr ''Q1'') \<Longrightarrow>
   sample (response_key self) = Some (ustr ''A1'') \<Longrightarrow>
   build_input self sample =
     Inr [20197, 19979, 26159, 21407, 22987, 38382, 31572, 23545, 65306, 10,
          12304, 38382, 39064, 12305, 10, 81, 49, 10,
          12304, 22238, 31572, 12305, 10, 65, 49]"
  by (simp add: build_input_def DEFAULT_INPUT_TEMPLATE_def DEFAULT_QA_PAIR_TEMPLATE_def ustr_def)

theorem build_input_default_templates_witness:
  "input_template pipeline_op = DEFAULT_INPUT_TEMPLATE \<and>
   qa_pair_template pipeline_op = DEFAULT_QA_PAIR_TEMPLATE \<and>
   qa_record (query_key pipeline_op) = Some (ustr ''Q1'') \<and>
   qa_record (response_key pipeline_op) = Some (ustr ''A1'') \<and>
   build_input pipeline_op qa_record =
     Inr [20197, 19979, 26159, 21407, 22987, 38382, 31572, 23545, 65306, 10,
          12304, 38382, 39064, 12305, 10, 81, 49, 10,
          12304, 22238, 31572, 12305, 10, 65, 49]"
proof -
  have h1: "input_template pipeline_op = DEFAULT_INPUT_TEMPLATE"
    by (simp add: pipeline_op_def)
  have h2: "qa_pair_template pipeline_op = DEFAULT_QA_PAIR_TEMPLATE"
    by (simp add: pipeline_op_def)
  have h3: "qa_record (query_key pipeline_op) = Some (ustr ''Q1'')"
    by (simp add: pipeline_op_def qa_record_def ustr_def)
  have h4: "qa_record (response_key pipeline_op) = Some (ustr ''A1'')"
    by (simp add: pipeline_op_def qa_record_def ustr_def)
  show ?thesis
    using h1 h2 h3 h4 build_input_default_templates [OF h1 h2 h3 h4] by simp
qed

subsection \<open>C6: the batched engine without an accelerator\<close>

text \<open>
  C6. With the batched engine enabled and no CUDA device, construction fails with an
  AssertionError and leaves the world as it was: no model has been prepared, and no operator
  on the pipeline backend is returned in its place.
\<close>

theorem init_vllm_without_cuda:
  "cuda_device_count w = 0 \<Longrightarrow>
   init base hf_model sp it qt op True model_params sampling w = (Inl AssertionError, w)"
  by (simp add: init_def Let_def)

theorem init_vllm_without_cuda_witness:
  "cuda_device_count dataset = 0 \<and>
   init base4 qwen None None None None True None None dataset = (Inl AssertionError, dataset)"
proof -
  have h: "cuda_device_count dataset = 0"
    by (simp add: dataset_def)
  show ?thesis
    using h init_vllm_without_cuda [OF h, of base4 qwen None None None None None None] by simp
qed

subsection \<open>C7: the worker-process count\<close>

text \<open>
  C7. An operator constructed with the batched engine has the worker-process count one; an
  operator constructed with the pipeline backend has the count that the base class set.
\<close>

theorem init_num_proc:
  "init base hf_model sp it qt op ev model_params sampling w = (Inr self, w') \<Longrightarrow>
   enable_vllm self = ev \<and> num_proc self = (if ev then Some 1 else num_proc base)"
  by (auto simp: init_def Let_def prepare_model_def split: if_splits)

theorem init_num_proc_witness:
  "init base4 qwen None None None None True None None two_gpus =
     (Inr vllm_op, two_gpus\<lparr>prepared := [model_key vllm_op]\<rparr>) \<and>
   enable_vllm vllm_op \<and> num_proc vllm_op = Some 1 \<and>
   init base4 qwen None None None None False None None dataset =
     (Inr pipeline_op, dataset\<lparr>prepared := [model_key pipeline_op]\<rparr>) \<and>
   \<not> enable_vllm pipeline_op \<and> num_proc pipeline_op = num_proc base4"
  using init_vllm_op init_pipeline_op
    init_num_proc [OF init_vllm_op] init_num_proc [OF init_pipeline_op]
  by simp

subsection \<open>C8: the record is changed in place\<close>

text \<open>
  C8 at the reply \<open>clean_reply\<close> (the question marker, a newline, \<^verbatim>\<open>New Q\<close>, a newline, the
  answer marker, a newline, \<^verbatim>\<open>New A\<close>). The default pattern matches it with the groups
  \<^verbatim>\<open>New Q\<close> and \<^verbatim>\<open>New A\<close>, so \<^verbatim>\<open>process_single\<close> should write both into the caller's
  record and return that record. The code raises AttributeError in \<^verbatim>\<open>parse_output\<close>
  instead: nothing is returned, and the store after the call is the store before it, as it
  is after every call of \<^verbatim>\<open>process_single\<close>.
\<close>

theorem process_single_never_writes:
  "heap (snd (process_single model self sample w)) = heap w \<and>
   re_findall DEFAULT_OUTPUT_PATTERN clean_reply True =
     Inr [ItemTuple [ustr ''New Q'', ustr ''New A'']] \<and>
   fst (process_single (replying clean_reply) pipeline_op 0 dataset) = Inl AttributeError \<and>
   heap (snd (process_single (replying clean_reply) pipeline_op 0 dataset)) 0 = Some qa_record"
  by (simp add: process_single_heap findall_clean process_single_clean heap_dataset_0)

subsection \<open>C9: the request to the model\<close>

text \<open>
  C9. For a record from which the input can be built, \<^verbatim>\<open>process_single\<close> sends exactly one
  request, whose conversation has two turns: the system turn with the configured system
  prompt, then the user turn with the built input. On the pipeline backend the request has
  \<^verbatim>\<open>return_full_text=False\<close> and the generation parameters as keyword arguments, and the
  raw reply, which \<^verbatim>\<open>parse_output\<close> then parses, is the field \<^verbatim>\<open>generated_text\<close> of the
  first result. (The generation parameters must not themselves hold a key
  \<^verbatim>\<open>return_full_text\<close>: Python refuses the call with a TypeError.)
\<close>

theorem model_request:
  assumes "heap w sample = Some d"
    and "build_input self d = Inr inp"
    and "messages = [\<lparr>role = ustr ''system'', content = system_prompt self\<rparr>,
                     \<lparr>role = ustr ''user'', content = inp\<rparr>]"
  shows "(enable_vllm self \<longrightarrow>
            requests (snd (process_single model self sample w)) =
              requests w @ [Chat messages (sampling_params self)]) \<and>
         (\<not> enable_vllm self \<and> sampling_params self = ParamDict kwargs \<and>
          kwargs (ustr ''return_full_text'') = None \<longrightarrow>
            requests (snd (process_single model self sample w)) =
              requests w @ [Pipe messages False kwargs] \<and>
            (\<forall>r0 rest raw.
               pipe model messages False kwargs = Inr (r0 # rest) \<and>
               r0 (ustr ''generated_text'') = Some raw \<longrightarrow>
               call_model model self messages w =
                 (Inr raw, w\<lparr>requests := requests w @ [Pipe messages False kwargs]\<rparr>) \<and>
               process_single model self sample w =
                 (case parse_output self raw of
                    Inl e \<Rightarrow> (Inl e, w\<lparr>requests := requests w @ [Pipe messages False kwargs]\<rparr>)
                  | Inr parsed \<Rightarrow>
                      (Inr sample,
                       write_back self sample parsed
                         (w\<lparr>requests := requests w @ [Pipe messages False kwargs]\<rparr>)))))"
proof (intro conjI impI allI)
  assume "enable_vllm self"
  then show "requests (snd (process_single model self sample w)) =
              requests w @ [Chat messages (sampling_params self)]"
    by (simp add: process_single_requests [OF assms(1,2)] call_model_chat_requests assms(3))
next
  assume p: "\<not> enable_vllm self \<and> sampling_params self = ParamDict kwargs \<and>
          kwargs (ustr ''return_full_text'') = None"
  then show "requests (snd (process_single model self sample w)) =
              requests w @ [Pipe messages False kwargs]"
    by (simp add: process_single_requests [OF assms(1,2)] call_model_pipe_requests assms(3))
  fix r0 rest raw
  assume r: "pipe model messages False kwargs = Inr (r0 # rest) \<and>
               r0 (ustr ''generated_text'') = Some raw"
  show c: "call_model model self messages w =
            (Inr raw, w\<lparr>requests := requests w @ [Pipe messages False kwargs]\<rparr>)"
    using p r by (simp add: call_model_def)
  show "process_single model self sample w =
                 (case parse_output self raw of
                    Inl e \<Rightarrow> (Inl e, w\<lparr>requests := requests w @ [Pipe messages False kwargs]\<rparr>)
                  | Inr parsed \<Rightarrow>
                      (Inr sample,
                       write_back self sample parsed
                         (w\<lparr>requests := requests w @ [Pipe messages False kwargs]\<rparr>)))"
    using c by (simp add: process_single_def assms split: sum.splits)
qed

theorem model_request_witness:
  "heap dataset 0 = Some qa_record \<and>
   \<not> enable_vllm pipeline_op \<and> sampling_params pipeline_op = ParamDict Map.empty \<and>
   requests (snd (process_single (replying garbage_reply) pipeline_op 0 dataset)) =
     requests dataset @
     [Pipe [\<lparr>role = ustr ''system'', content = system_prompt pipeline_op\<rparr>,
            \<lparr>role = ustr ''user'', content =
               [20197, 19979, 26159, 21407, 22987, 38382, 31572, 23545, 65306, 10,
                12304, 38382, 39064, 12305, 10, 81, 49, 10,
                12304, 22238, 31572, 12305, 10, 65, 49]\<rparr>] False Map.empty] \<and>
   fst (call_model (replying garbage_reply) pipeline_op
     [\<lparr>role = ustr ''system'', content = system_prompt pipeline_op\<rparr>,
      \<lparr>role = ustr ''user'', content =
         [20197, 19979, 26159, 21407, 22987, 38382, 31572, 23545, 65306, 10,
          12304, 38382, 39064, 12305, 10, 81, 49, 10,
          12304, 22238, 31572, 12305, 10, 65, 49]\<rparr>] dataset) = Inr garbage_reply \<and>
   enable_vllm vllm_op \<and>
   requests (snd (process_single (replying garbage_reply) vllm_op 0 dataset)) =
     requests dataset @
     [Chat [\<lparr>role = ustr ''system'', content = system_prompt vllm_op\<rparr>,
            \<lparr>role = ustr ''user'', content =
               [20197, 19979, 26159, 21407, 22987, 38382, 31572, 23545, 65306, 10,
                12304, 38382, 39064, 12305, 10, 81, 49, 10,
                12304, 22238, 31572, 12305, 10, 65, 49]\<rparr>] (sampling_params vllm_op)]"
proof -
  let ?inp = "[20197, 19979, 26159, 21407, 22987, 38382, 31572, 23545, 65306, 10,
               12304, 38382, 39064, 12305, 10, 81, 49, 10,
               12304, 22238, 31572, 12305, 10, 65, 49] :: ustring"
  let ?mp = "[\<lparr>role = ustr ''system'', content = system_prompt pipeline_op\<rparr>,
              \<lparr>role = ustr ''user'', content = ?inp\<rparr>]"
  let ?mv = "[\<lparr>role = ustr ''system'', content = system_prompt vllm_op\<rparr>,
              \<lparr>role = ustr ''user'', content = ?inp\<rparr>]"
  have p1: "\<not> enable_vllm pipeline_op" and p2: "sampling_params pipeline_op = ParamDict Map.empty"
    by (simp_all add: pipeline_op_def)
  have v1: "enable_vllm vllm_op"
    by (simp add: vllm_op_def)
  have reply: "pipe (replying garbage_reply) ?mp False Map.empty =
                 Inr ([ustr ''generated_text'' \<mapsto> garbage_reply] # [])"
    by (simp add: replying_def)
  note tp = model_request [OF heap_dataset_0 build_input_default refl,
      where model = "replying garbage_reply" and kwargs = Map.empty]
  note tv = model_request [OF heap_dataset_0 build_input_vllm_op refl,
      where model = "replying garbage_reply" and kwargs = Map.empty]
  have a: "requests (snd (process_single (replying garbage_reply) pipeline_op 0 dataset)) =
           requests dataset @ [Pipe ?mp False Map.empty]"
    using tp p1 p2 by simp
  have b: "call_model (replying garbage_reply) pipeline_op ?mp dataset =
           (Inr garbage_reply, dataset\<lparr>requests := requests dataset @ [Pipe ?mp False Map.empty]\<rparr>)"
    using tp [THEN conjunct2, THEN mp, THEN conjunct2, THEN spec, THEN spec, THEN spec,
        of "[ustr ''generated_text'' \<mapsto> garbage_reply]" "[]" garbage_reply] p1 p2 reply
    by simp
  have c: "requests (snd (process_single (replying garbage_reply) vllm_op 0 dataset)) =
           requests dataset @ [Chat ?mv (sampling_params vllm_op)]"
    using tv v1 by simp
  show ?thesis
    using heap_dataset_0 p1 p2 v1 a b c by simp
qed

subsection \<open>C10: an empty override\<close>

text \<open>
  C10. For each of the system prompt, the input template, the template of a pair and the
  output pattern, construction with the empty string is construction with \<^verbatim>\<open>None\<close>; and
  none of the four is empty in an operator that the constructor returns.
\<close>

theorem empty_override_is_default:
  "init base hf_model (Some []) it qt op ev model_params sampling w =
     init base hf_model None it qt op ev model_params sampling w \<and>
   init base hf_model sp (Some []) qt op ev model_params sampling w =
     init base hf_model sp None qt op ev model_params sampling w \<and>
   init base hf_model sp it (Some []) op ev model_params sampling w =
     init base hf_model sp it None op ev model_params sampling w \<and>
   init base hf_model sp it qt (Some []) ev model_params sampling w =
     init base hf_model sp it qt None ev model_params sampling w \<and>
   (init base hf_model sp it qt op ev model_params sampling w = (Inr self, w') \<longrightarrow>
      system_prompt self \<noteq> [] \<and> input_template self \<noteq> [] \<and>
      qa_pair_template self \<noteq> [] \<and> output_pattern self \<noteq> [])"
proof (intro conjI impI)
  assume "init base hf_model sp it qt op ev model_params sampling w = (Inr self, w')"
  then have self:
    "system_prompt self = str_or sp DEFAULT_SYSTEM_PROMPT"
    "input_template self = str_or it DEFAULT_INPUT_TEMPLATE"
    "qa_pair_template self = str_or qt DEFAULT_QA_PAIR_TEMPLATE"
    "output_pattern self = str_or op DEFAULT_OUTPUT_PATTERN"
    by (auto simp: init_def Let_def prepare_model_def split: if_splits)
  show "system_prompt self \<noteq> []"
    unfolding self by (rule str_or_nonempty) (simp add: DEFAULT_SYSTEM_PROMPT_def)
  show "input_template self \<noteq> []"
    unfolding self by (rule str_or_nonempty) (simp add: DEFAULT_INPUT_TEMPLATE_def)
  show "qa_pair_template self \<noteq> []"
    unfolding self by (rule str_or_nonempty) (simp add: DEFAULT_QA_PAIR_TEMPLATE_def)
  show "output_pattern self \<noteq> []"
    unfolding self by (rule str_or_nonempty) (simp add: DEFAULT_OUTPUT_PATTERN_def)
qed (simp_all add: init_def str_or_empty)

theorem empty_override_is_default_witness:
  "init base4 qwen (Some []) (Some []) (Some []) (Some []) False None None dataset =
     (Inr pipeline_op, dataset\<lparr>prepared := [model_key pipeline_op]\<rparr>) \<and>
   system_prompt pipeline_op \<noteq> [] \<and> input_template pipeline_op \<noteq> [] \<and>
   qa_pair_template pipeline_op \<noteq> [] \<and> output_pattern pipeline_op \<noteq> []"
proof -
  note e = empty_override_is_default [where base = base4 and hf_model = qwen and ev = False
      and model_params = None and sampling = None and w = dataset]
  have "init base4 qwen (Some []) (Some []) (Some []) (Some []) False None None dataset =
        init base4 qwen None None None None False None None dataset"
    using e [where sp = None and it = "Some []" and qt = "Some []" and op = "Some []"]
      e [where sp = None and it = None and qt = "Some []" and op = "Some []"]
      e [where sp = None and it = None and qt = None and op = "Some []"]
    by simp
  then have run: "init base4 qwen (Some []) (Some []) (Some []) (Some []) False None None dataset =
        (Inr pipeline_op, dataset\<lparr>prepared := [model_key pipeline_op]\<rparr>)"
    by (simp add: init_pipeline_op)
  show ?thesis
    using run
      e [where sp = "Some []" and it = "Some []" and qt = "Some []" and op = "Some []"
        and self = pipeline_op and w' = "dataset\<lparr>prepared := [model_key pipeline_op]\<rparr>"]
    by simp
qed

end
